theory Spec2Isabelle
  imports Main
begin

section \<open>Python dictionaries\<close>

text \<open>
  A Python \<^verbatim>\<open>dict\<close> keeps its keys in insertion order, and the programme iterates
  over the registry (\<^verbatim>\<open>for name in self.jobs\<close>, \<^verbatim>\<open>self.jobs.values()\<close>), so a dictionary
  is an association list. Assigning to a key that is present replaces the value where the key
  stands; assigning to a new key appends it.
\<close>

type_synonym ('k, 'v) dict = "('k \<times> 'v) list"

definition dict_get :: "('k, 'v) dict \<Rightarrow> 'k \<Rightarrow> 'v option" where
  "dict_get d k = map_of d k"

definition dict_contains :: "'k \<Rightarrow> ('k, 'v) dict \<Rightarrow> bool" where
  "dict_contains k d = (k \<in> set (map fst d))"

fun dict_set :: "'k \<Rightarrow> 'v \<Rightarrow> ('k, 'v) dict \<Rightarrow> ('k, 'v) dict" where
  "dict_set k v [] = [(k, v)]"
| "dict_set k v ((k', v') # kvs) =
     (if k' = k then (k', v) # kvs else (k', v') # dict_set k v kvs)"

definition dict_del :: "'k \<Rightarrow> ('k, 'v) dict \<Rightarrow> ('k, 'v) dict" where
  "dict_del k d = filter (\<lambda>kv. fst kv \<noteq> k) d"

definition dict_keys :: "('k, 'v) dict \<Rightarrow> 'k list" where
  "dict_keys d = map fst d"

definition dict_values :: "('k, 'v) dict \<Rightarrow> 'v list" where
  "dict_values d = map snd d"

section \<open>Data of \<^verbatim>\<open>sync_manager.py\<close>\<close>

text \<open>The dictionary \<^verbatim>\<open>add_job\<close> stores for a job: its six keys.\<close>

record job =
  name :: string
  source_dir :: string
  dest_dir :: string
  options :: "string list"
  auto_sync :: bool
  interval :: int

text \<open>
  The four signals of \<^verbatim>\<open>SyncManager\<close>, with the arguments they are emitted with. An emitted
  signal is an event for the observers.
\<close>

datatype signal =
    sync_started string
  | sync_finished string bool
  | sync_progress string int
  | sync_error string string

text \<open>An exception, with the text \<^verbatim>\<open>str(e)\<close> gives for it.\<close>

datatype error = Exception string

text \<open>
  What \<^verbatim>\<open>subprocess.Popen\<close> returns: \<^verbatim>\<open>communicate()\<close> waits for the child and returns
  \<^verbatim>\<open>(stdout, stderr)\<close>, or raises; \<^verbatim>\<open>returncode\<close> is the exit status read after it.
\<close>

record process =
  communicate :: "error + (string \<times> string)"
  returncode :: int

text \<open>
  The world outside: \<^verbatim>\<open>os.path.exists\<close>, and \<^verbatim>\<open>subprocess.Popen\<close> on a command line, which
  returns a process or raises (binary missing, permission denied).
\<close>

record env =
  path_exists :: "string \<Rightarrow> bool"
  Popen :: "string list \<Rightarrow> error + process"

text \<open>
  The object: \<^verbatim>\<open>self.jobs\<close> and \<^verbatim>\<open>self.running_processes\<close>. Two logs make its effects
  visible: \<open>emitted\<close> holds every signal emitted so far, oldest first, and \<open>spawned\<close>
  every command line \<^verbatim>\<open>Popen\<close> was called with.
\<close>

record sync_manager =
  jobs :: "(string, job) dict"
  running_processes :: "(string, process) dict"
  emitted :: "signal list"
  spawned :: "string list list"

definition init :: sync_manager where
  "init = \<lparr>jobs = [], running_processes = [], emitted = [], spawned = []\<rparr>"

definition emit :: "signal \<Rightarrow> sync_manager \<Rightarrow> sync_manager" where
  "emit s st = st\<lparr>emitted := emitted st @ [s]\<rparr>"

section \<open>The registry\<close>

text \<open>
  \<^verbatim>\<open>add_job(self, name, source_dir, dest_dir, options=None, auto_sync=False, interval=60)\<close>.
  The argument \<open>opts\<close> is \<open>None\<close> when \<^verbatim>\<open>options\<close> is omitted or passed as \<^verbatim>\<open>None\<close>; a
  caller that omits \<^verbatim>\<open>auto_sync\<close> or \<^verbatim>\<open>interval\<close> passes \<open>False\<close> and \<open>60\<close>.
\<close>

definition add_job ::
  "string \<Rightarrow> string \<Rightarrow> string \<Rightarrow> string list option \<Rightarrow> bool \<Rightarrow> int \<Rightarrow> sync_manager \<Rightarrow> sync_manager"
where
  "add_job n src dst opts auto ival st =
     (let opts' = (case opts of None \<Rightarrow> [''-av'', ''--delete''] | Some os \<Rightarrow> os)
      in st\<lparr>jobs := dict_set n
            \<lparr>name = n, source_dir = src, dest_dir = dst, options = opts',
             auto_sync = auto, interval = ival\<rparr> (jobs st)\<rparr>)"

definition remove_job :: "string \<Rightarrow> sync_manager \<Rightarrow> sync_manager" where
  "remove_job n st =
     (if dict_contains n (jobs st) then st\<lparr>jobs := dict_del n (jobs st)\<rparr> else st)"

definition get_jobs :: "sync_manager \<Rightarrow> (string, job) dict" where
  "get_jobs st = jobs st"

definition clear_jobs :: "sync_manager \<Rightarrow> sync_manager" where
  "clear_jobs st = st\<lparr>jobs := []\<rparr>"

section \<open>Running a job\<close>

text \<open>The command line of line 52: \<^verbatim>\<open>['rsync'] + job['options'] + [source_dir, dest_dir]\<close>.\<close>

definition cmd :: "job \<Rightarrow> string list" where
  "cmd j = [''rsync''] @ options j @ [source_dir j, dest_dir j]"

text \<open>
  The body of the \<^verbatim>\<open>try\<close> block of \<^verbatim>\<open>start_sync\<close> (lines 55 to 78). It returns \<open>Inl e\<close>
  with the state reached when a statement raises \<open>e\<close>. The \<^verbatim>\<open>del\<close> of line 78 finds the
  key that line 64 has set, so it does not raise.
\<close>

definition try_body :: "env \<Rightarrow> string \<Rightarrow> string list \<Rightarrow> sync_manager \<Rightarrow> (error + unit) \<times> sync_manager" where
  "try_body ev n c st =
     (let st1 = st\<lparr>spawned := spawned st @ [c]\<rparr> in
      case Popen ev c of
        Inl e \<Rightarrow> (Inl e, st1)
      | Inr p \<Rightarrow>
          let st2 = st1\<lparr>running_processes := dict_set n p (running_processes st1)\<rparr>;
              st3 = emit (sync_started n) st2
          in (case communicate p of
                Inl e \<Rightarrow> (Inl e, st3)
              | Inr (out, err) \<Rightarrow>
                  let st4 = (if returncode p = 0 then emit (sync_finished n True) st3
                             else emit (sync_finished n False) (emit (sync_error n err) st3))
                  in (Inr (), st4\<lparr>running_processes := dict_del n (running_processes st4)\<rparr>)))"

text \<open>
  \<^verbatim>\<open>start_sync(self, name)\<close>. The first component of the result is how the call ends for its
  caller: \<open>Inr ()\<close> when it returns, \<open>Inl e\<close> when \<open>e\<close> propagates.
\<close>

definition start_sync :: "env \<Rightarrow> string \<Rightarrow> sync_manager \<Rightarrow> (error + unit) \<times> sync_manager" where
  "start_sync ev n st =
     (case dict_get (jobs st) n of
        None \<Rightarrow> (Inr (), emit (sync_error n ''Sync job not found'') st)
      | Some j \<Rightarrow>
          if \<not> path_exists ev (source_dir j)
          then (Inr (), emit (sync_error n (''Source directory does not exist: '' @ source_dir j)) st)
          else (case try_body ev n (cmd j) st of
                  (Inl (Exception e), st') \<Rightarrow>
                    (Inr (), emit (sync_finished n False) (emit (sync_error n e) st'))
                | (Inr u, st') \<Rightarrow> (Inr (), st')))"

text \<open>
  \<^verbatim>\<open>start_all_sync(self)\<close>: the loop over the names of the registry. An exception leaving a
  call would end the loop.
\<close>

fun start_all :: "env \<Rightarrow> string list \<Rightarrow> sync_manager \<Rightarrow> (error + unit) \<times> sync_manager" where
  "start_all ev [] st = (Inr (), st)"
| "start_all ev (n # ns) st =
     (case start_sync ev n st of
        (Inl e, st') \<Rightarrow> (Inl e, st')
      | (Inr u, st') \<Rightarrow> start_all ev ns st')"

definition start_all_sync :: "env \<Rightarrow> sync_manager \<Rightarrow> (error + unit) \<times> sync_manager" where
  "start_all_sync ev st = start_all ev (dict_keys (jobs st)) st"

section \<open>The configuration file\<close>

text \<open>
  What \<^verbatim>\<open>json.load\<close> returns for the file \<^verbatim>\<open>config.json\<close>. A JSON object that stands for
  a job is a record of its six keys, each present or absent, since \<^verbatim>\<open>load_config\<close> reads
  every key with \<^verbatim>\<open>job.get(key, default)\<close>. A value that is no JSON object is \<open>Other t\<close>,
  with \<open>t\<close> the name of its Python type; calling \<^verbatim>\<open>.get\<close> on it raises an
  \<^verbatim>\<open>AttributeError\<close>. The values of the six keys have the types of the persisted
  format, and the value of \<^verbatim>\<open>sync_jobs\<close>, when the key is present, is a list.
\<close>

record job_json =
  json_name :: "string option"
  json_source_dir :: "string option"
  json_dest_dir :: "string option"
  json_options :: "string list option"
  json_auto_sync :: "bool option"
  json_interval :: "int option"

datatype 'a json = Other string | Object 'a

type_synonym config = "job_json json list option json"

text \<open>
  The file as \<^verbatim>\<open>load_config\<close> finds it: absent (\<^verbatim>\<open>os.path.exists\<close> is false), present but
  \<^verbatim>\<open>os.makedirs\<close>, \<^verbatim>\<open>open\<close> or \<^verbatim>\<open>json.load\<close> raises (a text that is not JSON), or present
  with a JSON value.
\<close>

datatype config_file = Missing | Unreadable error | Content config

definition get_or :: "'a option \<Rightarrow> 'a \<Rightarrow> 'a" where
  "get_or v d = (case v of None \<Rightarrow> d | Some x \<Rightarrow> x)"

definition attribute_error :: "string \<Rightarrow> error" where
  "attribute_error t =
     Exception ([CHR 0x27] @ t @ [CHR 0x27] @ '' object has no attribute '' @
                [CHR 0x27] @ ''get'' @ [CHR 0x27])"

text \<open>The loop of lines 100 to 108 of \<^verbatim>\<open>main.py\<close>.\<close>

fun load_jobs :: "job_json json list \<Rightarrow> sync_manager \<Rightarrow> (error + unit) \<times> sync_manager" where
  "load_jobs [] st = (Inr (), st)"
| "load_jobs (Other t # js) st = (Inl (attribute_error t), st)"
| "load_jobs (Object j # js) st =
     load_jobs js
       (add_job (get_or (json_name j) []) (get_or (json_source_dir j) [])
          (get_or (json_dest_dir j) []) (Some (get_or (json_options j) []))
          (get_or (json_auto_sync j) False) (get_or (json_interval j) 60) st)"

text \<open>The body of the \<^verbatim>\<open>try\<close> block of \<^verbatim>\<open>load_config\<close>.\<close>

definition load_config_body :: "config_file \<Rightarrow> sync_manager \<Rightarrow> (error + unit) \<times> sync_manager" where
  "load_config_body f st =
     (case f of
        Missing \<Rightarrow> (Inr (), st)
      | Unreadable e \<Rightarrow> (Inl e, st)
      | Content c \<Rightarrow>
          let st1 = clear_jobs st in
          (case c of
             Other t \<Rightarrow> (Inl (attribute_error t), st1)
           | Object v \<Rightarrow> load_jobs (get_or v []) st1))"

text \<open>
  \<^verbatim>\<open>RsyncTrayApp.load_config\<close>, on the application's \<^verbatim>\<open>sync_manager\<close>. The handler prints the
  exception and the call returns.
\<close>

definition load_config :: "config_file \<Rightarrow> sync_manager \<Rightarrow> (error + unit) \<times> sync_manager" where
  "load_config f st =
     (case load_config_body f st of
        (Inl e, st') \<Rightarrow> (Inr (), st')
      | (Inr u, st') \<Rightarrow> (Inr (), st'))"

text \<open>
  \<^verbatim>\<open>ConfigDialog\<close>: the constructor copies the registry into the dialog's own \<^verbatim>\<open>self.jobs\<close>,
  and \<^verbatim>\<open>accept\<close> writes the dialog's jobs back into the registry and hands
  \<^verbatim>\<open>{'sync_jobs': list(self.jobs.values())}\<close> to \<^verbatim>\<open>json.dump\<close>. The second component of the
  result of \<open>accept\<close> is that document.
\<close>

definition ConfigDialog :: "sync_manager \<Rightarrow> (string, job) dict" where
  "ConfigDialog st = get_jobs st"

definition to_json :: "job \<Rightarrow> job_json" where
  "to_json j =
     \<lparr>json_name = Some (name j), json_source_dir = Some (source_dir j),
      json_dest_dir = Some (dest_dir j), json_options = Some (options j),
      json_auto_sync = Some (auto_sync j), json_interval = Some (interval j)\<rparr>"

definition document :: "job list \<Rightarrow> config" where
  "document js = Object (Some (map (\<lambda>j. Object (to_json j)) js))"

fun accept_jobs :: "(string, job) dict \<Rightarrow> sync_manager \<Rightarrow> sync_manager" where
  "accept_jobs [] st = st"
| "accept_jobs ((job_name, j) # kvs) st =
     accept_jobs kvs
       (add_job (name j) (source_dir j) (dest_dir j) (Some (options j))
          (auto_sync j) (interval j) st)"

definition accept :: "(string, job) dict \<Rightarrow> sync_manager \<Rightarrow> sync_manager \<times> config" where
  "accept dialog_jobs st =
     (accept_jobs dialog_jobs (clear_jobs st), document (dict_values dialog_jobs))"

section \<open>Measuring a call\<close>

text \<open>The signals one call of \<open>start_sync\<close> adds to the log, oldest first.\<close>

definition run_events :: "env \<Rightarrow> string \<Rightarrow> sync_manager \<Rightarrow> signal list" where
  "run_events ev n st = drop (length (emitted st)) (emitted (snd (start_sync ev n st)))"

fun is_started :: "signal \<Rightarrow> bool" where
  "is_started (sync_started n) = True"
| "is_started s = False"

fun is_finished :: "signal \<Rightarrow> bool" where
  "is_finished (sync_finished n ok) = True"
| "is_finished s = False"

fun is_error :: "signal \<Rightarrow> bool" where
  "is_error (sync_error n m) = True"
| "is_error s = False"

section \<open>The scenarios of the specification\<close>

definition docs :: sync_manager where
  "docs = add_job ''docs'' ''/tmp/src'' ''/tmp/dst'' (Some [''-av'', ''--delete'']) False 60 init"

definition exits :: "int \<Rightarrow> string \<Rightarrow> env" where
  "exits rc err =
     \<lparr>path_exists = (\<lambda>p. True),
      Popen = (\<lambda>c. Inr \<lparr>communicate = Inr ([], err), returncode = rc\<rparr>)\<rparr>"

definition no_source :: env where
  "no_source = (exits 0 [])\<lparr>path_exists := (\<lambda>p. False)\<rparr>"

definition no_rsync :: env where
  "no_rsync = (exits 0 [])\<lparr>Popen := (\<lambda>c. Inl (Exception ''No such file or directory''))\<rparr>"

definition docs_job :: job where
  "docs_job = \<lparr>name = ''docs'', source_dir = ''/tmp/src'', dest_dir = ''/tmp/dst'',
                options = [''-av'', ''--delete''], auto_sync = False, interval = 60\<rparr>"

text \<open>A second job beside \<open>docs\<close>, added with the default options.\<close>

definition photos :: sync_manager where
  "photos = add_job ''photos'' ''/home/p'' ''/mnt/p'' None True 30 docs"

text \<open>Two records of a configuration file that bear the same name.\<close>

definition renamed :: "job list" where
  "renamed = [docs_job, docs_job\<lparr>source_dir := ''/tmp/other''\<rparr>]"

text \<open>
  A child that exits with status 0 and whose output \<^verbatim>\<open>communicate()\<close> cannot decode
  (\<^verbatim>\<open>text=True\<close>): the call raises \<^verbatim>\<open>UnicodeDecodeError\<close>, with this text.
\<close>

definition decode_error :: string where
  "decode_error =
     [CHR 0x27] @ ''utf-8'' @ [CHR 0x27] @ '' codec can'' @ [CHR 0x27] @
     ''t decode byte 0xff in position 0: invalid start byte''"

definition undecodable :: process where
  "undecodable = \<lparr>communicate = Inl (Exception decode_error), returncode = 0\<rparr>"

definition garbled :: env where
  "garbled = (exits 0 [])\<lparr>Popen := (\<lambda>c. Inr undecodable)\<rparr>"

text \<open>A configuration file of two records, in another order than the registry \<open>docs\<close>.\<close>

definition photos_job :: job where
  "photos_job = \<lparr>name = ''photos'', source_dir = ''/home/p'', dest_dir = ''/mnt/p'',
                  options = [''-az''], auto_sync = True, interval = 30\<rparr>"

definition two_records :: "job list" where
  "two_records = [photos_job, docs_job]"

section \<open>Measuring a run of all jobs, and a round trip\<close>

text \<open>The signals one call of \<open>start_all_sync\<close> adds to the log.\<close>

definition all_events :: "env \<Rightarrow> sync_manager \<Rightarrow> signal list" where
  "all_events ev st = drop (length (emitted st)) (emitted (snd (start_all_sync ev st)))"

text \<open>The job a signal is about: its first argument.\<close>

fun job_of :: "signal \<Rightarrow> string" where
  "job_of (sync_started n) = n"
| "job_of (sync_finished n ok) = n"
| "job_of (sync_progress n k) = n"
| "job_of (sync_error n m) = n"

text \<open>A job gets as far as a running process: its source path exists and \<open>Popen\<close> returns.\<close>

definition launches :: "env \<Rightarrow> job \<Rightarrow> bool" where
  "launches ev j = (path_exists ev (source_dir j) \<and> \<not> isl (Popen ev (cmd j)))"

text \<open>
  Saving is opening the dialog on the registry and accepting it unchanged; loading a sequence
  of job records is \<open>load_config\<close> on the file that holds their document.
\<close>

definition save :: "sync_manager \<Rightarrow> config" where
  "save st = snd (accept (ConfigDialog st) st)"

definition load :: "job list \<Rightarrow> sync_manager \<Rightarrow> sync_manager" where
  "load x st = snd (load_config (Content (document x)) st)"

section \<open>Facts about dictionaries\<close>

lemma dict_get_set_same: "dict_get (dict_set k v d) k = Some v"
  by (induction d) (auto simp: dict_get_def)

lemma dict_get_set_other: "k' \<noteq> k \<Longrightarrow> dict_get (dict_set k v d) k' = dict_get d k'"
  by (induction d) (auto simp: dict_get_def)

lemma dict_keys_set:
  "dict_keys (dict_set k v d) = (if dict_contains k d then dict_keys d else dict_keys d @ [k])"
  by (induction d) (force simp: dict_contains_def dict_keys_def)+

lemma dict_set_absent: "\<not> dict_contains k d \<Longrightarrow> dict_set k v d = d @ [(k, v)]"
  by (induction d) (force simp: dict_contains_def)+

lemma dict_get_None: "dict_get d k = None \<longleftrightarrow> \<not> dict_contains k d"
  by (simp add: dict_get_def dict_contains_def map_of_eq_None_iff)

section \<open>What one call of \<open>start_sync\<close> does\<close>

lemma emitted_try_body:
  "emitted (snd (try_body ev n c st)) =
     emitted st @
       (case Popen ev c of
          Inl e \<Rightarrow> []
        | Inr p \<Rightarrow>
            (case communicate p of
               Inl e \<Rightarrow> [sync_started n]
             | Inr oe \<Rightarrow>
                 if returncode p = 0 then [sync_started n, sync_finished n True]
                 else [sync_started n, sync_error n (snd oe), sync_finished n False]))"
  by (simp add: try_body_def emit_def Let_def split: sum.splits prod.splits)

lemma fst_try_body:
  "fst (try_body ev n c st) =
     (case Popen ev c of
        Inl e \<Rightarrow> Inl e
      | Inr p \<Rightarrow> (case communicate p of Inl e \<Rightarrow> Inl e | Inr oe \<Rightarrow> Inr ()))"
  by (simp add: try_body_def Let_def split: sum.splits prod.splits)

lemma spawned_try_body: "spawned (snd (try_body ev n c st)) = spawned st @ [c]"
  by (simp add: try_body_def emit_def Let_def split: sum.splits prod.splits)

lemma jobs_try_body: "jobs (snd (try_body ev n c st)) = jobs st"
  by (simp add: try_body_def emit_def Let_def split: sum.splits prod.splits)

lemma start_sync_unfold:
  "start_sync ev n st =
     (case dict_get (jobs st) n of
        None \<Rightarrow> (Inr (), emit (sync_error n ''Sync job not found'') st)
      | Some j \<Rightarrow>
          if \<not> path_exists ev (source_dir j)
          then (Inr (), emit (sync_error n (''Source directory does not exist: '' @ source_dir j)) st)
          else (case fst (try_body ev n (cmd j) st) of
                  Inl (Exception e) \<Rightarrow>
                    (Inr (), emit (sync_finished n False)
                               (emit (sync_error n e) (snd (try_body ev n (cmd j) st))))
                | Inr u \<Rightarrow> (Inr (), snd (try_body ev n (cmd j) st))))"
  by (simp add: start_sync_def split: option.splits prod.splits sum.splits error.splits)

lemma fst_start_sync: "fst (start_sync ev n st) = Inr ()"
  by (simp add: start_sync_def split: option.splits sum.splits prod.splits error.splits)

lemma jobs_start_sync: "jobs (snd (start_sync ev n st)) = jobs st"
  by (simp add: start_sync_unfold emit_def jobs_try_body
           split: option.splits sum.splits error.splits)

lemma emitted_start_sync:
  "emitted (snd (start_sync ev n st)) =
     emitted st @
       (case dict_get (jobs st) n of
          None \<Rightarrow> [sync_error n ''Sync job not found'']
        | Some j \<Rightarrow>
            if \<not> path_exists ev (source_dir j)
            then [sync_error n (''Source directory does not exist: '' @ source_dir j)]
            else (case Popen ev (cmd j) of
                    Inl (Exception e) \<Rightarrow> [sync_error n e, sync_finished n False]
                  | Inr p \<Rightarrow>
                      (case communicate p of
                         Inl (Exception e) \<Rightarrow> [sync_started n, sync_error n e, sync_finished n False]
                       | Inr oe \<Rightarrow>
                           if returncode p = 0 then [sync_started n, sync_finished n True]
                           else [sync_started n, sync_error n (snd oe), sync_finished n False])))"
  by (simp add: start_sync_unfold emit_def emitted_try_body fst_try_body
           split: option.splits sum.splits error.splits)

lemma spawned_start_sync:
  "spawned (snd (start_sync ev n st)) =
     spawned st @
       (case dict_get (jobs st) n of
          None \<Rightarrow> []
        | Some j \<Rightarrow> if \<not> path_exists ev (source_dir j) then [] else [cmd j])"
  by (simp add: start_sync_unfold emit_def spawned_try_body
           split: option.splits sum.splits error.splits)

lemma run_events_eq:
  "run_events ev n st =
       (case dict_get (jobs st) n of
          None \<Rightarrow> [sync_error n ''Sync job not found'']
        | Some j \<Rightarrow>
            if \<not> path_exists ev (source_dir j)
            then [sync_error n (''Source directory does not exist: '' @ source_dir j)]
            else (case Popen ev (cmd j) of
                    Inl (Exception e) \<Rightarrow> [sync_error n e, sync_finished n False]
                  | Inr p \<Rightarrow>
                      (case communicate p of
                         Inl (Exception e) \<Rightarrow> [sync_started n, sync_error n e, sync_finished n False]
                       | Inr oe \<Rightarrow>
                           if returncode p = 0 then [sync_started n, sync_finished n True]
                           else [sync_started n, sync_error n (snd oe), sync_finished n False])))"
  unfolding run_events_def emitted_start_sync by simp

lemma run_events_jobs: "jobs st = jobs st' \<Longrightarrow> run_events ev n st = run_events ev n st'"
  by (simp add: run_events_eq)

section \<open>The scenarios, evaluated\<close>

lemma jobs_docs: "jobs docs = [(''docs'', docs_job)]"
  by (simp add: docs_def docs_job_def add_job_def init_def)

lemma get_docs: "dict_get (jobs docs) ''docs'' = Some docs_job"
  by (simp add: jobs_docs dict_get_def)

lemma docs_logs: "emitted docs = [] \<and> spawned docs = []"
  by (simp add: docs_def add_job_def init_def)

lemma docs_job_fields:
  "source_dir docs_job = ''/tmp/src'' \<and> dest_dir docs_job = ''/tmp/dst'' \<and>
   options docs_job = [''-av'', ''--delete''] \<and> name docs_job = ''docs''"
  by (simp add: docs_job_def)

lemma env_fields:
  "path_exists (exits rc err) p \<and>
   Popen (exits rc err) c = Inr \<lparr>communicate = Inr ([], err), returncode = rc\<rparr>"
  "\<not> path_exists no_source p"
  "path_exists no_rsync p \<and> Popen no_rsync c = Inl (Exception ''No such file or directory'')"
  by (simp_all add: exits_def no_source_def no_rsync_def)

lemma garbled_fields:
  "path_exists garbled p \<and> Popen garbled c = Inr undecodable"
  by (simp add: garbled_def exits_def)

lemma distinct_two_records: "distinct (map name two_records)"
  by (simp add: two_records_def photos_job_def docs_job_def)

section \<open>The event sequence of a run\<close>

text \<open>
  C1, as the code has it. A call of \<open>start_sync\<close> on a registered job whose source path
  exists appends the events \<open>run_events\<close> to the log; among them is exactly one
  \<open>sync_finished\<close>, and it is the last event, so that any \<open>sync_error\<close> of the call comes
  before it; its flag is true exactly when the call emitted no \<open>sync_error\<close>. The call emits
  one \<open>sync_started\<close>, the first event, when \<open>Popen\<close> returns a process, and none when
  \<open>Popen\<close> raises: the events are then \<open>sync_error\<close> with the text of the exception and
  \<open>sync_finished\<close> with false.
\<close>

theorem start_sync_events:
  assumes "dict_get (jobs st) n = Some j" and "path_exists ev (source_dir j)"
  shows "emitted (snd (start_sync ev n st)) = emitted st @ run_events ev n st \<and>
         length (filter is_finished (run_events ev n st)) = 1 \<and>
         last (run_events ev n st) = sync_finished n (filter is_error (run_events ev n st) = []) \<and>
         length (filter is_started (run_events ev n st)) =
           (case Popen ev (cmd j) of Inl e \<Rightarrow> 0 | Inr p \<Rightarrow> 1) \<and>
         (case Popen ev (cmd j) of
            Inl (Exception e) \<Rightarrow> run_events ev n st = [sync_error n e, sync_finished n False]
          | Inr p \<Rightarrow> hd (run_events ev n st) = sync_started n)"
  using assms
  by (simp add: emitted_start_sync run_events_eq split: option.splits sum.splits error.splits)

theorem start_sync_events_witness:
  "dict_get (jobs docs) ''docs'' = Some docs_job \<and>
   path_exists (exits 13 ''Permission denied'') (source_dir docs_job) \<and>
   run_events (exits 13 ''Permission denied'') ''docs'' docs =
     [sync_started ''docs'', sync_error ''docs'' ''Permission denied'', sync_finished ''docs'' False] \<and>
   length (filter is_finished (run_events (exits 13 ''Permission denied'') ''docs'' docs)) = 1 \<and>
   length (filter is_started (run_events (exits 13 ''Permission denied'') ''docs'' docs)) = 1"
proof -
  have h1: "dict_get (jobs docs) ''docs'' = Some docs_job" by (rule get_docs)
  have h2: "path_exists (exits 13 ''Permission denied'') (source_dir docs_job)"
    by (simp add: env_fields)
  have ev: "run_events (exits 13 ''Permission denied'') ''docs'' docs =
     [sync_started ''docs'', sync_error ''docs'' ''Permission denied'', sync_finished ''docs'' False]"
    by (simp add: run_events_eq get_docs env_fields)
  show ?thesis
    using start_sync_events [OF h1 h2] h1 h2 ev by (simp add: env_fields)
qed

text \<open>
  C1 as stated fails where \<open>Popen\<close> raises: the job \<open>docs\<close> is registered and its source
  path exists, and the call emits no \<open>sync_started\<close>.
\<close>

theorem start_sync_events_counterexample:
  "dict_get (jobs docs) ''docs'' = Some docs_job \<and> path_exists no_rsync (source_dir docs_job) \<and>
   run_events no_rsync ''docs'' docs =
     [sync_error ''docs'' ''No such file or directory'', sync_finished ''docs'' False] \<and>
   length (filter is_started (run_events no_rsync ''docs'' docs)) = 0"
  by (simp add: run_events_eq get_docs env_fields)

text \<open>
  C2, as the code has it. For a registered job whose source path exists, whose process
  launches and whose \<^verbatim>\<open>communicate()\<close> returns, the
  call appends exactly \<open>[sync_started, sync_finished True]\<close> to the log when the exit
  status is 0, and \<open>[sync_started, sync_error\<close> with the captured standard error,
  \<open>sync_finished False]\<close> when it is not.
\<close>

theorem start_sync_exit_status:
  assumes "dict_get (jobs st) n = Some j" and "path_exists ev (source_dir j)"
    and "Popen ev (cmd j) = Inr p" and "communicate p = Inr (out, err)"
  shows "emitted (snd (start_sync ev n st)) =
           emitted st @
             (if returncode p = 0 then [sync_started n, sync_finished n True]
              else [sync_started n, sync_error n err, sync_finished n False])"
  using assms by (simp add: emitted_start_sync)

theorem start_sync_exit_status_witness:
  "emitted (snd (start_sync (exits 0 []) ''docs'' docs)) =
     [sync_started ''docs'', sync_finished ''docs'' True] \<and>
   emitted (snd (start_sync (exits 13 ''Permission denied'') ''docs'' docs)) =
     [sync_started ''docs'', sync_error ''docs'' ''Permission denied'', sync_finished ''docs'' False]"
proof -
  have h1: "dict_get (jobs docs) ''docs'' = Some docs_job" by (rule get_docs)
  have h2: "path_exists (exits rc err) (source_dir docs_job)" for rc err
    by (simp add: env_fields)
  have h3: "Popen (exits rc err) (cmd docs_job) =
              Inr \<lparr>communicate = Inr ([], err), returncode = rc\<rparr>" for rc err
    by (simp add: env_fields)
  have h4: "communicate \<lparr>communicate = Inr ([], err), returncode = rc\<rparr> = Inr ([], err)"
    for rc :: int and err :: string by simp
  show ?thesis
    using start_sync_exit_status [OF h1 h2 h3 h4, of 0 "[]"]
          start_sync_exit_status [OF h1 h2 h3 h4, of 13 "''Permission denied''"]
    by (simp add: docs_logs)
qed

text \<open>
  C2 as stated fails when the process launches and exits with status 0 but
  \<^verbatim>\<open>communicate()\<close> raises: the handler emits \<open>sync_error\<close> and \<open>sync_finished\<close> with
  false after the \<open>sync_started\<close>.
\<close>

theorem start_sync_exit_status_counterexample:
  "dict_get (jobs docs) ''docs'' = Some docs_job \<and>
   path_exists garbled (source_dir docs_job) \<and>
   Popen garbled (cmd docs_job) = Inr undecodable \<and>
   returncode undecodable = 0 \<and>
   emitted (snd (start_sync garbled ''docs'' docs)) =
     [sync_started ''docs'', sync_error ''docs'' decode_error, sync_finished ''docs'' False] \<and>
   emitted (snd (start_sync garbled ''docs'' docs)) \<noteq>
     [sync_started ''docs'', sync_finished ''docs'' True]"
proof -
  have e: "emitted (snd (start_sync garbled ''docs'' docs)) =
     [sync_started ''docs'', sync_error ''docs'' decode_error, sync_finished ''docs'' False]"
    by (simp add: emitted_start_sync get_docs garbled_fields docs_logs undecodable_def)
  show ?thesis
    by (simp add: e get_docs garbled_fields) (simp add: undecodable_def)
qed

text \<open>
  C3. A call with a name that is not in the registry appends the single event
  \<open>sync_error\<close> with the text "Sync job not found" and spawns nothing; a call on a
  registered job whose source path does not exist appends the single event \<open>sync_error\<close>
  with "Source directory does not exist: " and the path, and spawns nothing. In both cases
  there is no \<open>sync_started\<close> and no \<open>sync_finished\<close>.
\<close>

theorem start_sync_rejects:
  "(\<not> dict_contains n (jobs st) \<longrightarrow>
      emitted (snd (start_sync ev n st)) = emitted st @ [sync_error n ''Sync job not found''] \<and>
      spawned (snd (start_sync ev n st)) = spawned st) \<and>
   (dict_get (jobs st) n = Some j \<and> \<not> path_exists ev (source_dir j) \<longrightarrow>
      emitted (snd (start_sync ev n st)) =
        emitted st @ [sync_error n (''Source directory does not exist: '' @ source_dir j)] \<and>
      spawned (snd (start_sync ev n st)) = spawned st)"
  by (simp add: emitted_start_sync spawned_start_sync dict_get_None [symmetric])

theorem start_sync_rejects_witness:
  "\<not> dict_contains ''ghost'' (jobs docs) \<and>
   emitted (snd (start_sync (exits 0 []) ''ghost'' docs)) =
     [sync_error ''ghost'' ''Sync job not found''] \<and>
   spawned (snd (start_sync (exits 0 []) ''ghost'' docs)) = [] \<and>
   dict_get (jobs docs) ''docs'' = Some docs_job \<and>
   \<not> path_exists no_source (source_dir docs_job) \<and>
   emitted (snd (start_sync no_source ''docs'' docs)) =
     [sync_error ''docs'' ''Source directory does not exist: /tmp/src''] \<and>
   spawned (snd (start_sync no_source ''docs'' docs)) = []"
proof -
  have h1: "\<not> dict_contains ''ghost'' (jobs docs)"
    by (simp add: jobs_docs dict_contains_def)
  have h2: "dict_get (jobs docs) ''docs'' = Some docs_job \<and>
            \<not> path_exists no_source (source_dir docs_job)"
    by (simp add: get_docs env_fields)
  show ?thesis
    using start_sync_rejects [of "''ghost''" docs "exits 0 []" docs_job]
          start_sync_rejects [of "''docs''" docs no_source docs_job] h1 h2
    by (simp add: docs_logs docs_job_fields)
qed

text \<open>
  C4. For a registered job whose source path exists, the call passes to \<open>Popen\<close> one
  command line: "rsync", then the job's options in order, then the source path, then the
  destination path; the destination is its last argument and the source the one before.
\<close>

theorem start_sync_command:
  assumes "dict_get (jobs st) n = Some j" and "path_exists ev (source_dir j)"
  shows "spawned (snd (start_sync ev n st)) =
           spawned st @ [[''rsync''] @ options j @ [source_dir j, dest_dir j]] \<and>
         last ([''rsync''] @ options j @ [source_dir j, dest_dir j]) = dest_dir j \<and>
         last (butlast ([''rsync''] @ options j @ [source_dir j, dest_dir j])) = source_dir j"
proof -
  have "butlast ([''rsync''] @ options j @ [source_dir j, dest_dir j]) =
          [''rsync''] @ options j @ [source_dir j]"
    by (simp add: butlast_append)
  then show ?thesis
    using assms by (simp add: spawned_start_sync cmd_def)
qed

theorem start_sync_command_witness:
  "dict_get (jobs docs) ''docs'' = Some docs_job \<and>
   path_exists (exits 0 []) (source_dir docs_job) \<and>
   spawned (snd (start_sync (exits 0 []) ''docs'' docs)) =
     [[''rsync'', ''-av'', ''--delete'', ''/tmp/src'', ''/tmp/dst'']]"
proof -
  have h1: "dict_get (jobs docs) ''docs'' = Some docs_job" by (rule get_docs)
  have h2: "path_exists (exits 0 []) (source_dir docs_job)" by (simp add: env_fields)
  show ?thesis
    using start_sync_command [OF h1 h2] h1 h2 by (simp add: docs_logs docs_job_fields)
qed

text \<open>
  C8. Whatever the name, the registry and the world outside, \<open>start_sync\<close> returns to its
  caller, and all it adds to the log are the events \<open>run_events\<close>. Each condition that goes
  wrong is reported by a \<open>sync_error\<close> among them: a name that is not registered, by
  "Sync job not found"; a source path that does not exist, by "Source directory does not
  exist: " and the path; a process that does not launch, by the text of the exception,
  followed by \<open>sync_finished\<close> with false; an exit status that is not 0, by the captured
  standard error, after \<open>sync_started\<close> and followed by \<open>sync_finished\<close> with false. And
  the call emits a \<open>sync_error\<close> unless its last event is \<open>sync_finished\<close> with true.
\<close>

theorem start_sync_returns_normally:
  "fst (start_sync ev n st) = Inr () \<and>
   emitted (snd (start_sync ev n st)) = emitted st @ run_events ev n st \<and>
   (\<not> dict_contains n (jobs st) \<longrightarrow>
      run_events ev n st = [sync_error n ''Sync job not found'']) \<and>
   (dict_get (jobs st) n = Some j \<and> \<not> path_exists ev (source_dir j) \<longrightarrow>
      run_events ev n st =
        [sync_error n (''Source directory does not exist: '' @ source_dir j)]) \<and>
   (dict_get (jobs st) n = Some j \<and> path_exists ev (source_dir j) \<and>
    Popen ev (cmd j) = Inl (Exception e) \<longrightarrow>
      run_events ev n st = [sync_error n e, sync_finished n False]) \<and>
   (dict_get (jobs st) n = Some j \<and> path_exists ev (source_dir j) \<and>
    Popen ev (cmd j) = Inr p \<and> communicate p = Inr (out, err) \<and> returncode p \<noteq> 0 \<longrightarrow>
      run_events ev n st = [sync_started n, sync_error n err, sync_finished n False]) \<and>
   (filter is_error (run_events ev n st) = []) =
     (last (run_events ev n st) = sync_finished n True)"
proof -
  have a: "fst (start_sync ev n st) = Inr ()" by (rule fst_start_sync)
  have b: "emitted (snd (start_sync ev n st)) = emitted st @ run_events ev n st"
    by (simp add: run_events_def emitted_start_sync)
  have c: "run_events ev n st = [sync_error n ''Sync job not found'']"
    if "\<not> dict_contains n (jobs st)"
    using that by (simp add: run_events_eq dict_get_None [symmetric])
  have d: "run_events ev n st =
             [sync_error n (''Source directory does not exist: '' @ source_dir j)]"
    if "dict_get (jobs st) n = Some j" and "\<not> path_exists ev (source_dir j)"
    using that by (simp add: run_events_eq)
  have f: "run_events ev n st = [sync_error n e, sync_finished n False]"
    if "dict_get (jobs st) n = Some j" and "path_exists ev (source_dir j)"
      and "Popen ev (cmd j) = Inl (Exception e)"
    using that by (simp add: run_events_eq)
  have g: "run_events ev n st = [sync_started n, sync_error n err, sync_finished n False]"
    if "dict_get (jobs st) n = Some j" and "path_exists ev (source_dir j)"
      and "Popen ev (cmd j) = Inr p" and "communicate p = Inr (out, err)"
      and "returncode p \<noteq> 0"
    using that by (simp add: run_events_eq)
  have h: "(filter is_error (run_events ev n st) = []) =
             (last (run_events ev n st) = sync_finished n True)"
    by (simp add: run_events_eq split: option.splits sum.splits error.splits)
  show ?thesis using a b c d f g h by blast
qed

theorem start_sync_returns_normally_witness:
  "\<not> dict_contains ''ghost'' (jobs docs) \<and>
   run_events (exits 0 []) ''ghost'' docs = [sync_error ''ghost'' ''Sync job not found''] \<and>
   dict_get (jobs docs) ''docs'' = Some docs_job \<and>
   \<not> path_exists no_source (source_dir docs_job) \<and>
   run_events no_source ''docs'' docs =
     [sync_error ''docs'' ''Source directory does not exist: /tmp/src''] \<and>
   path_exists no_rsync (source_dir docs_job) \<and>
   Popen no_rsync (cmd docs_job) = Inl (Exception ''No such file or directory'') \<and>
   run_events no_rsync ''docs'' docs =
     [sync_error ''docs'' ''No such file or directory'', sync_finished ''docs'' False] \<and>
   path_exists (exits 13 ''Permission denied'') (source_dir docs_job) \<and>
   Popen (exits 13 ''Permission denied'') (cmd docs_job) =
     Inr \<lparr>communicate = Inr ([], ''Permission denied''), returncode = 13\<rparr> \<and>
   run_events (exits 13 ''Permission denied'') ''docs'' docs =
     [sync_started ''docs'', sync_error ''docs'' ''Permission denied'',
      sync_finished ''docs'' False] \<and>
   fst (start_sync (exits 13 ''Permission denied'') ''docs'' docs) = Inr ()"
proof -
  let ?p = "\<lparr>communicate = Inr ([], ''Permission denied''), returncode = 13\<rparr>"
  have h1: "\<not> dict_contains ''ghost'' (jobs docs)"
    by (simp add: jobs_docs dict_contains_def)
  have h2: "dict_get (jobs docs) ''docs'' = Some docs_job" by (rule get_docs)
  have h3: "\<not> path_exists no_source (source_dir docs_job)" by (simp add: env_fields)
  have h4: "path_exists no_rsync (source_dir docs_job) \<and>
            Popen no_rsync (cmd docs_job) = Inl (Exception ''No such file or directory'')"
    by (simp add: env_fields)
  have h5: "path_exists (exits 13 ''Permission denied'') (source_dir docs_job) \<and>
            Popen (exits 13 ''Permission denied'') (cmd docs_job) = Inr ?p"
    by (simp add: env_fields)
  have h6: "communicate ?p = Inr ([], ''Permission denied'') \<and> returncode ?p \<noteq> 0"
    by simp
  have r1: "run_events (exits 0 []) ''ghost'' docs = [sync_error ''ghost'' ''Sync job not found'']"
    using start_sync_returns_normally [of "exits 0 []" "''ghost''" docs] h1 by blast
  have r2: "run_events no_source ''docs'' docs =
              [sync_error ''docs'' (''Source directory does not exist: '' @ source_dir docs_job)]"
    using start_sync_returns_normally [of no_source "''docs''" docs docs_job] h2 h3 by blast
  have r3: "run_events no_rsync ''docs'' docs =
              [sync_error ''docs'' ''No such file or directory'', sync_finished ''docs'' False]"
    using start_sync_returns_normally
            [of no_rsync "''docs''" docs docs_job "''No such file or directory''"] h2 h4
    by blast
  have r4: "run_events (exits 13 ''Permission denied'') ''docs'' docs =
              [sync_started ''docs'', sync_error ''docs'' ''Permission denied'',
               sync_finished ''docs'' False] \<and>
            fst (start_sync (exits 13 ''Permission denied'') ''docs'' docs) = Inr ()"
    using start_sync_returns_normally
            [of "exits 13 ''Permission denied''" "''docs''" docs docs_job _ ?p
                "[]" "''Permission denied''"] h2 h5 h6
    by blast
  show ?thesis
    using h1 h2 h3 h4 h5 r1 r2 r3 r4 by (simp add: docs_job_fields)
qed

section \<open>The registry: \<open>add_job\<close>\<close>

text \<open>
  C9. When the name is already in the registry, \<open>add_job\<close> replaces the record stored under
  it by the record made of the call's arguments alone, so that nothing of the old record
  is left; the other entries and the order of the names do not change.
\<close>

theorem add_job_replaces:
  assumes "dict_contains n (jobs st)"
  shows "dict_get (jobs (add_job n src dst opts auto ival st)) k =
           (if k = n
            then Some \<lparr>name = n, source_dir = src, dest_dir = dst,
                       options = (case opts of None \<Rightarrow> [''-av'', ''--delete''] | Some os \<Rightarrow> os),
                       auto_sync = auto, interval = ival\<rparr>
            else dict_get (jobs st) k) \<and>
         dict_keys (jobs (add_job n src dst opts auto ival st)) = dict_keys (jobs st)"
  using assms by (simp add: add_job_def dict_get_set_same dict_get_set_other dict_keys_set)

theorem add_job_replaces_witness:
  "dict_contains ''docs'' (jobs docs) \<and>
   dict_get (jobs docs) ''docs'' = Some docs_job \<and>
   dict_get (jobs (add_job ''docs'' ''/home/a'' ''/mnt/b'' (Some []) True 15 docs)) ''docs'' =
     Some \<lparr>name = ''docs'', source_dir = ''/home/a'', dest_dir = ''/mnt/b'', options = [],
           auto_sync = True, interval = 15\<rparr> \<and>
   dict_keys (jobs (add_job ''docs'' ''/home/a'' ''/mnt/b'' (Some []) True 15 docs)) = [''docs'']"
proof -
  have h: "dict_contains ''docs'' (jobs docs)"
    by (simp add: jobs_docs dict_contains_def)
  have k: "dict_keys (jobs docs) = [''docs'']"
    by (simp add: jobs_docs dict_keys_def)
  show ?thesis
    using add_job_replaces [OF h, of "''/home/a''" "''/mnt/b''" "Some []" True 15 "''docs''"] h
    by (simp add: get_docs k)
qed

text \<open>
  C10. With \<^verbatim>\<open>options\<close> omitted or \<^verbatim>\<open>None\<close>, the stored job has the options
  \<^verbatim>\<open>['-av', '--delete']\<close>; a list that is passed is stored as it is, the empty list too.
\<close>

theorem add_job_default_options:
  "map_option options (dict_get (jobs (add_job n src dst None auto ival st)) n) =
     Some [''-av'', ''--delete''] \<and>
   map_option options (dict_get (jobs (add_job n src dst (Some os) auto ival st)) n) = Some os \<and>
   map_option options (dict_get (jobs (add_job n src dst (Some []) auto ival st)) n) = Some []"
  by (simp add: add_job_def dict_get_set_same)

section \<open>Loading the configuration\<close>

lemma fst_load_config: "fst (load_config f st) = Inr ()"
  by (simp add: load_config_def split: prod.splits sum.splits)

lemma snd_load_config: "snd (load_config f st) = snd (load_config_body f st)"
  by (simp add: load_config_def split: prod.splits sum.splits)

text \<open>
  C5, as the code has it. \<open>load_config\<close> returns to its caller whatever the file is. When
  the file is missing, or cannot be opened or parsed, the registry is left as it was before
  the call, so it is empty when it was empty; when the file holds a JSON value that is no
  object, the registry is empty after the call.
\<close>

theorem load_config_missing_or_malformed:
  "fst (load_config f st) = Inr () \<and>
   jobs (snd (load_config Missing st)) = jobs st \<and>
   jobs (snd (load_config (Unreadable e) st)) = jobs st \<and>
   jobs (snd (load_config (Content (Other t)) st)) = []"
  by (simp add: fst_load_config snd_load_config load_config_body_def clear_jobs_def)

text \<open>
  C5 as stated fails for a registry that holds a job: after loading a missing file, or one
  that is not JSON, the job is still there.
\<close>

theorem load_config_missing_counterexample:
  "jobs (snd (load_config Missing docs)) = [(''docs'', docs_job)] \<and>
   jobs (snd (load_config
     (Unreadable (Exception ''Expecting value: line 1 column 1 (char 0)'')) docs)) =
     [(''docs'', docs_job)]"
  by (simp add: snd_load_config load_config_body_def jobs_docs)

section \<open>Saving what was loaded\<close>

lemma job_eta:
  "\<lparr>name = name j, source_dir = source_dir j, dest_dir = dest_dir j, options = options j,
    auto_sync = auto_sync j, interval = interval j\<rparr> = (j :: job)"
  by (cases j) simp

lemma add_job_fresh:
  "\<not> dict_contains (name j) (jobs st) \<Longrightarrow>
   add_job (name j) (source_dir j) (dest_dir j) (Some (options j)) (auto_sync j) (interval j) st =
     st\<lparr>jobs := jobs st @ [(name j, j)]\<rparr>"
  by (simp add: add_job_def dict_set_absent job_eta)

lemma get_or_Some: "get_or (Some v) d = v"
  by (simp add: get_or_def)

lemma load_jobs_document:
  "distinct (map name x) \<Longrightarrow> set (map name x) \<inter> set (dict_keys (jobs st)) = {} \<Longrightarrow>
   load_jobs (map (\<lambda>j. Object (to_json j)) x) st =
     (Inr (), st\<lparr>jobs := jobs st @ map (\<lambda>j. (name j, j)) x\<rparr>)"
proof (induction x arbitrary: st)
  case Nil
  then show ?case by simp
next
  case (Cons j x)
  let ?st = "st\<lparr>jobs := jobs st @ [(name j, j)]\<rparr>"
  have fresh: "\<not> dict_contains (name j) (jobs st)"
    using Cons.prems(2) by (auto simp: dict_contains_def dict_keys_def)
  have step: "load_jobs (map (\<lambda>j. Object (to_json j)) (j # x)) st =
              load_jobs (map (\<lambda>j. Object (to_json j)) x) ?st"
    using add_job_fresh [OF fresh] by (simp add: to_json_def get_or_Some)
  have d: "distinct (map name x)" using Cons.prems(1) by simp
  have i: "set (map name x) \<inter> set (dict_keys (jobs ?st)) = {}"
    using Cons.prems by (auto simp: dict_keys_def)
  show ?case
    using Cons.IH [OF d i] step by simp
qed

lemma jobs_load:
  assumes "distinct (map name x)"
  shows "jobs (load x st) = map (\<lambda>j. (name j, j)) x"
proof -
  have "set (map name x) \<inter> set (dict_keys (jobs (clear_jobs st))) = {}"
    by (simp add: clear_jobs_def dict_keys_def)
  from load_jobs_document [OF assms this] show ?thesis
    by (simp add: load_def snd_load_config load_config_body_def document_def get_or_Some
                  clear_jobs_def)
qed

lemma save_eq: "save st = document (dict_values (jobs st))"
  by (simp add: save_def accept_def ConfigDialog_def get_jobs_def)

lemma jobs_load_renamed:
  "jobs (load renamed init) = [(''docs'', docs_job\<lparr>source_dir := ''/tmp/other''\<rparr>)]"
  by (simp add: load_def snd_load_config load_config_body_def document_def get_or_def
                clear_jobs_def renamed_def to_json_def add_job_def docs_job_def init_def)

text \<open>
  C6, as the code has it. For a sequence of job records whose names are pairwise distinct,
  loading it into the registry, whatever the registry held, and saving gives back the
  document of the sequence; the registry holds the records in the order of the sequence.
\<close>

theorem save_load_roundtrip:
  assumes "distinct (map name x)"
  shows "save (load x st) = document x \<and> dict_values (jobs (load x st)) = x"
  using jobs_load [OF assms, of st] by (simp add: save_eq dict_values_def comp_def)

theorem save_load_roundtrip_witness:
  "distinct (map name two_records) \<and>
   jobs docs = [(''docs'', docs_job)] \<and>
   save (load two_records docs) = document two_records \<and>
   dict_values (jobs (load two_records docs)) = [photos_job, docs_job]"
proof -
  have h: "distinct (map name two_records)" by (rule distinct_two_records)
  have t: "two_records = [photos_job, docs_job]" by (rule two_records_def)
  have "save (load two_records docs) = document two_records \<and>
        dict_values (jobs (load two_records docs)) = two_records"
    using save_load_roundtrip [OF h, of docs] .
  then show ?thesis using h jobs_docs t by simp
qed

text \<open>
  C6 as stated fails for two records of the same name: the registry keeps one job under the
  name, the second record, and the saved document has one record.
\<close>

theorem save_load_roundtrip_counterexample:
  "save (load renamed init) = document [docs_job\<lparr>source_dir := ''/tmp/other''\<rparr>] \<and>
   save (load renamed init) \<noteq> document renamed"
proof -
  have s: "save (load renamed init) = document [docs_job\<lparr>source_dir := ''/tmp/other''\<rparr>]"
    by (simp add: save_eq jobs_load_renamed dict_values_def)
  have d: "document [docs_job\<lparr>source_dir := ''/tmp/other''\<rparr>] \<noteq> document renamed"
    by (simp add: document_def renamed_def)
  show ?thesis using s d by simp
qed

section \<open>Running all jobs\<close>

lemma emitted_run_events:
  "emitted (snd (start_sync ev n st)) = emitted st @ run_events ev n st"
  by (simp add: run_events_def emitted_start_sync)

lemma start_all_facts:
  "fst (start_all ev ns st) = Inr () \<and>
   jobs (snd (start_all ev ns st)) = jobs st \<and>
   emitted (snd (start_all ev ns st)) = emitted st @ concat (map (\<lambda>n. run_events ev n st) ns)"
proof (induction ns arbitrary: st)
  case Nil
  show ?case by simp
next
  case (Cons n ns)
  obtain st' where s: "start_sync ev n st = (Inr (), st')"
    using fst_start_sync [of ev n st] by (cases "start_sync ev n st") simp
  have j: "jobs st' = jobs st"
    using jobs_start_sync [of ev n st] s by simp
  have e: "emitted st' = emitted st @ run_events ev n st"
    using emitted_run_events [of ev n st] s by simp
  have r: "map (\<lambda>m. run_events ev m st') ns = map (\<lambda>m. run_events ev m st) ns"
    using run_events_jobs [OF j] by simp
  show ?case
    using Cons.IH [of st'] by (simp add: s j e r)
qed

lemma all_events_eq:
  "all_events ev st = concat (map (\<lambda>n. run_events ev n st) (dict_keys (jobs st)))"
  by (simp add: all_events_def start_all_sync_def start_all_facts)

lemma launched_events:
  assumes "dict_get (jobs st) n = Some j" and "launches ev j"
  shows "filter is_started (run_events ev n st) = [sync_started n] \<and>
         map job_of (filter is_finished (run_events ev n st)) = [n]"
proof (cases "Popen ev (cmd j)")
  case (Inl e)
  with assms(2) show ?thesis by (simp add: launches_def)
next
  case (Inr p)
  with assms show ?thesis
    by (simp add: run_events_eq launches_def split: sum.splits error.splits)
qed

lemma launched_all:
  assumes "list_all (launches ev) (map snd d)"
  assumes "set ks \<subseteq> set (map fst d)"
  shows "filter is_started (concat (map (\<lambda>n. run_events ev n (st\<lparr>jobs := d\<rparr>)) ks)) =
           map sync_started ks \<and>
         map job_of (filter is_finished
           (concat (map (\<lambda>n. run_events ev n (st\<lparr>jobs := d\<rparr>)) ks))) = ks"
  using assms(2)
proof (induction ks)
  case Nil
  show ?case by simp
next
  case (Cons k ks)
  then have "k \<in> set (map fst d)" by simp
  then obtain j where g: "map_of d k = Some j"
    by (metis map_of_eq_None_iff not_Some_eq set_map)
  then have "(k, j) \<in> set d" by (rule map_of_SomeD)
  then have "j \<in> set (map snd d)" by force
  with assms(1) have l: "launches ev j" by (auto simp: list_all_iff)
  have g': "dict_get (jobs (st\<lparr>jobs := d\<rparr>)) k = Some j"
    using g by (simp add: dict_get_def)
  show ?case
    using launched_events [OF g' l] Cons by simp
qed

lemma jobs_photos:
  "jobs photos =
     [(''docs'', docs_job),
      (''photos'', \<lparr>name = ''photos'', source_dir = ''/home/p'', dest_dir = ''/mnt/p'',
                    options = [''-av'', ''--delete''], auto_sync = True, interval = 30\<rparr>)]"
  by (simp add: photos_def add_job_def jobs_docs)

text \<open>
  C7, as the code has it. \<open>start_all_sync\<close> returns, and the events it adds to the log are
  the events of one call of \<open>start_sync\<close> for each name of the registry, in the order of the
  registry, one call's events after the other's. When every job of the registry has a source
  path that exists and a process that launches, there is one \<open>sync_started\<close> and one
  \<open>sync_finished\<close> for each job, in the order of the registry: N of each for N jobs.
\<close>

theorem start_all_sync_events:
  "fst (start_all_sync ev st) = Inr () \<and>
   emitted (snd (start_all_sync ev st)) = emitted st @ all_events ev st \<and>
   all_events ev st = concat (map (\<lambda>n. run_events ev n st) (dict_keys (jobs st))) \<and>
   (list_all (launches ev) (dict_values (jobs st)) \<longrightarrow>
      filter is_started (all_events ev st) = map sync_started (dict_keys (jobs st)) \<and>
      map job_of (filter is_finished (all_events ev st)) = dict_keys (jobs st) \<and>
      length (filter is_started (all_events ev st)) = length (jobs st) \<and>
      length (filter is_finished (all_events ev st)) = length (jobs st))"
proof -
  have a: "fst (start_all_sync ev st) = Inr ()"
    by (simp add: start_all_sync_def start_all_facts)
  have b: "emitted (snd (start_all_sync ev st)) = emitted st @ all_events ev st"
    by (simp add: all_events_def start_all_sync_def start_all_facts)
  have c: "filter is_started (all_events ev st) = map sync_started (dict_keys (jobs st)) \<and>
           map job_of (filter is_finished (all_events ev st)) = dict_keys (jobs st)"
    if h: "list_all (launches ev) (dict_values (jobs st))"
  proof -
    have "list_all (launches ev) (map snd (jobs st))"
      using h by (simp add: dict_values_def)
    from launched_all [OF this, of "dict_keys (jobs st)" st]
    show ?thesis by (simp add: all_events_eq dict_keys_def)
  qed
  have d: "length (filter is_started (all_events ev st)) = length (jobs st) \<and>
           length (filter is_finished (all_events ev st)) = length (jobs st)"
    if h: "list_all (launches ev) (dict_values (jobs st))"
  proof -
    have "length (map sync_started (dict_keys (jobs st))) = length (jobs st)"
      by (simp add: dict_keys_def)
    moreover have "length (map job_of (filter is_finished (all_events ev st))) = length (jobs st)"
      using c [OF h] by (simp add: dict_keys_def)
    ultimately show ?thesis using c [OF h] by (metis length_map)
  qed
  show ?thesis using a b c d by (simp add: all_events_eq)
qed

theorem start_all_sync_events_witness:
  "list_all (launches (exits 0 [])) (dict_values (jobs photos)) \<and>
   dict_keys (jobs photos) = [''docs'', ''photos''] \<and>
   filter is_started (all_events (exits 0 []) photos) =
     [sync_started ''docs'', sync_started ''photos''] \<and>
   map job_of (filter is_finished (all_events (exits 0 []) photos)) = [''docs'', ''photos'']"
proof -
  have h: "list_all (launches (exits 0 [])) (dict_values (jobs photos))"
    by (simp add: jobs_photos dict_values_def launches_def env_fields)
  have k: "dict_keys (jobs photos) = [''docs'', ''photos'']"
    by (simp add: jobs_photos dict_keys_def)
  have "filter is_started (all_events (exits 0 []) photos) =
          map sync_started (dict_keys (jobs photos)) \<and>
        map job_of (filter is_finished (all_events (exits 0 []) photos)) =
          dict_keys (jobs photos)"
    using start_all_sync_events [of "exits 0 []" photos] h by blast
  then show ?thesis using h k by simp
qed

text \<open>
  C7 as stated fails for a registry of one job whose source path does not exist: the run
  emits one \<open>sync_error\<close>, no \<open>sync_started\<close> and no \<open>sync_finished\<close>.
\<close>

theorem start_all_sync_events_counterexample:
  "length (jobs docs) = 1 \<and>
   all_events no_source docs =
     [sync_error ''docs'' ''Source directory does not exist: /tmp/src''] \<and>
   length (filter is_started (all_events no_source docs)) = 0 \<and>
   length (filter is_finished (all_events no_source docs)) = 0"
proof -
  have k: "dict_keys (jobs docs) = [''docs'']"
    by (simp add: jobs_docs dict_keys_def)
  have e: "all_events no_source docs =
             [sync_error ''docs'' ''Source directory does not exist: /tmp/src'']"
    by (simp add: all_events_eq k run_events_eq get_docs env_fields docs_job_fields)
  show ?thesis by (simp add: e jobs_docs)
qed

end
